theory Spec2Isabelle
  imports Complex_Main
begin

section \<open>Numbers and strings of the source language\<close>

text \<open>
  A TypeScript \<open>number\<close> is either a finite value, one of the two infinities, or NaN.
  Finite values are kept as reals: the classifier only compares entries with the
  constants 5, 2, 1.20 and 4, and for a finite double \<open>v\<close> the test \<open>v <= 1.20\<close> against
  the double nearest to 1.2 has the same outcome as the comparison of the exact values
  (no double lies strictly between that constant and 1.2). Both zeros are \<open>Fin 0\<close>:
  \<open><\<close> and \<open>===\<close> do not tell them apart.
\<close>

datatype jsnum = Fin real | PInf | NInf | NaN

text \<open>The relational operators \<open><\<close>, \<open>>\<close>, \<open><=\<close>, \<open>>=\<close> and \<open>===\<close> on numbers:
  every comparison with NaN is false.\<close>

fun js_lt :: "jsnum \<Rightarrow> jsnum \<Rightarrow> bool" where
  "js_lt NaN b = False"
| "js_lt a NaN = False"
| "js_lt (Fin x) (Fin y) = (x < y)"
| "js_lt (Fin x) PInf = True"
| "js_lt (Fin x) NInf = False"
| "js_lt PInf b = False"
| "js_lt NInf NInf = False"
| "js_lt NInf b = True"

definition js_eq :: "jsnum \<Rightarrow> jsnum \<Rightarrow> bool" where
  "js_eq a b = (a \<noteq> NaN \<and> a = b)"

definition js_gt :: "jsnum \<Rightarrow> jsnum \<Rightarrow> bool" where
  "js_gt a b = js_lt b a"

definition js_le :: "jsnum \<Rightarrow> jsnum \<Rightarrow> bool" where
  "js_le a b = (js_lt a b \<or> js_eq a b)"

definition js_ge :: "jsnum \<Rightarrow> jsnum \<Rightarrow> bool" where
  "js_ge a b = (js_lt b a \<or> js_eq a b)"

definition isNaN :: "jsnum \<Rightarrow> bool" where
  "isNaN a = (a = NaN)"

text \<open>A string is its sequence of UTF-16 code units; \<open>str\<close> reads an ASCII literal.\<close>

type_synonym jsstring = "nat list"

definition str :: "string \<Rightarrow> jsstring" where
  "str s = map of_char s"

section \<open>types.ts\<close>

datatype PredictionCategory = BREAKOUT | COOLDOWN | STABLE | LOW | NONE

record PredictionDetails =
  range_str :: jsstring
  label :: jsstring
  colorClass :: jsstring
  textColorClass :: jsstring
  borderColorClass :: jsstring

record PredictionResult = PredictionDetails +
  category :: PredictionCategory

section \<open>constants.ts\<close>

definition BREAKOUT_THRESHOLD_COUNT_LT_2X :: nat where
  "BREAKOUT_THRESHOLD_COUNT_LT_2X = 5"

definition BREAKOUT_THRESHOLD_COUNT_LTE_1_2X :: nat where
  "BREAKOUT_THRESHOLD_COUNT_LTE_1_2X = 2"

definition COOLDOWN_THRESHOLD_GT_5X :: jsnum where
  "COOLDOWN_THRESHOLD_GT_5X = Fin 5"

definition STABLE_LOWER_BOUND :: jsnum where
  "STABLE_LOWER_BOUND = Fin 2"

definition STABLE_UPPER_BOUND :: jsnum where
  "STABLE_UPPER_BOUND = Fin 4"

definition STABLE_HISTORY_COUNT :: nat where
  "STABLE_HISTORY_COUNT = 3"

definition DEFAULT_HISTORY_LENGTH :: nat where
  "DEFAULT_HISTORY_LENGTH = 6"

text \<open>The en dash of the range labels is the code unit 8211 (U+2013).\<close>

fun PREDICTION_DETAILS :: "PredictionCategory \<Rightarrow> PredictionDetails" where
  "PREDICTION_DETAILS BREAKOUT =
     \<lparr>range_str = str ''3.00x '' @ [8211] @ str '' 8.00x'',
      label = str ''Breakout Likely!'',
      colorClass = str ''bg-green-800/40'',
      textColorClass = str ''text-green-300'',
      borderColorClass = str ''border-green-500''\<rparr>"
| "PREDICTION_DETAILS COOLDOWN =
     \<lparr>range_str = str ''1.10x '' @ [8211] @ str '' 2.00x'',
      label = str ''Cooldown Period'',
      colorClass = str ''bg-red-800/40'',
      textColorClass = str ''text-red-300'',
      borderColorClass = str ''border-red-500''\<rparr>"
| "PREDICTION_DETAILS STABLE =
     \<lparr>range_str = str ''2.00x '' @ [8211] @ str '' 4.00x'',
      label = str ''Stable Pattern'',
      colorClass = str ''bg-blue-800/40'',
      textColorClass = str ''text-blue-300'',
      borderColorClass = str ''border-blue-500''\<rparr>"
| "PREDICTION_DETAILS LOW =
     \<lparr>range_str = str ''1.10x '' @ [8211] @ str '' 1.80x'',
      label = str ''Low Multiplier Expected'',
      colorClass = str ''bg-yellow-800/40'',
      textColorClass = str ''text-yellow-300'',
      borderColorClass = str ''border-yellow-500''\<rparr>"
| "PREDICTION_DETAILS NONE =
     \<lparr>range_str = str ''N/A'',
      label = str ''Enter history to predict'',
      colorClass = str ''bg-slate-700'',
      textColorClass = str ''text-slate-300'',
      borderColorClass = str ''border-slate-600''\<rparr>"

text \<open>The object literal \<open>{ category: c, ...PREDICTION_DETAILS[c] }\<close>.\<close>

definition result_of :: "PredictionCategory \<Rightarrow> PredictionResult" where
  "result_of c =
     (let d = PREDICTION_DETAILS c in
      \<lparr>range_str = range_str d, label = label d, colorClass = colorClass d,
       textColorClass = textColorClass d, borderColorClass = borderColorClass d,
       category = c\<rparr>)"

section \<open>services/predictionService.ts\<close>

text \<open>\<open>history.slice(-k)\<close>: the start index is \<open>max (length - k) 0\<close>, which is what the
  truncating subtraction of \<open>nat\<close> computes.\<close>

definition slice_last :: "nat \<Rightarrow> 'a list \<Rightarrow> 'a list" where
  "slice_last k xs = drop (length xs - k) xs"

definition analyzeHistory :: "jsnum list \<Rightarrow> PredictionResult" where
  "analyzeHistory history =
     (let currentHistoryLength = length history in
      if currentHistoryLength < 2 then result_of LOW
      else
        let lastValue = history ! (length history - 1) in
        if js_gt lastValue COOLDOWN_THRESHOLD_GT_5X then result_of COOLDOWN
        else if currentHistoryLength \<ge> BREAKOUT_THRESHOLD_COUNT_LT_2X
                \<and> (let countLessThan2x = length (filter (\<lambda>val. js_lt val (Fin 2)) history);
                        countLessThanOrEqualTo1_20x =
                          length (filter (\<lambda>val. js_le val (Fin 1.20)) history)
                    in countLessThan2x \<ge> BREAKOUT_THRESHOLD_COUNT_LT_2X
                       \<and> countLessThanOrEqualTo1_20x \<ge> BREAKOUT_THRESHOLD_COUNT_LTE_1_2X)
        then result_of BREAKOUT
        else if currentHistoryLength \<ge> STABLE_HISTORY_COUNT
                \<and> (let lastNValuesForStableRule = slice_last STABLE_HISTORY_COUNT history
                    in length lastNValuesForStableRule = STABLE_HISTORY_COUNT
                       \<and> list_all (\<lambda>val. js_ge val STABLE_LOWER_BOUND
                                          \<and> js_le val STABLE_UPPER_BOUND)
                            lastNValuesForStableRule)
        then result_of STABLE
        else result_of LOW)"

section \<open>Built-in string functions\<close>

text \<open>The characters \<open>String.prototype.trim\<close> removes and \<open>parseFloat\<close> skips: WhiteSpace
  (TAB, VT, FF, the space separators, ZWNBSP) and LineTerminator (LF, CR, LS, PS).\<close>

definition isWhiteSpace :: "nat \<Rightarrow> bool" where
  "isWhiteSpace c =
     (c \<in> set [9, 10, 11, 12, 13, 32, 160, 5760, 8192, 8193, 8194, 8195, 8196, 8197, 8198,
                8199, 8200, 8201, 8202, 8232, 8233, 8239, 8287, 12288, 65279])"

definition trim :: "jsstring \<Rightarrow> jsstring" where
  "trim s = rev (dropWhile isWhiteSpace (rev (dropWhile isWhiteSpace s)))"

text \<open>\<open>input.split(',')\<close>; the comma is the code unit 44. The empty string splits into
  one empty piece.\<close>

fun split_comma :: "jsstring \<Rightarrow> jsstring list" where
  "split_comma [] = [[]]"
| "split_comma (c # cs) =
     (if c = 44 then [] # split_comma cs
      else (case split_comma cs of [] \<Rightarrow> [[c]] | p # ps \<Rightarrow> (c # p) # ps))"

text \<open>\<open>pieces.join(',')\<close>, the inverse the splitting is measured against.\<close>

fun join_comma :: "jsstring list \<Rightarrow> jsstring" where
  "join_comma [] = []"
| "join_comma [p] = p"
| "join_comma (p # q # ps) = p @ 44 # join_comma (q # ps)"

text \<open>
  \<open>parseFloat\<close>: leading white space is skipped, then the longest prefix that is a
  StrDecimalLiteral is read (an optional sign, then \<open>Infinity\<close>, or digits with an
  optional fraction and an optional exponent); NaN when there is no such prefix. The
  value is the exact decimal value of the prefix: the rounding to a double is left out,
  and the theorems on the validator below are stated for every parse function.
\<close>

definition isDigit :: "nat \<Rightarrow> bool" where
  "isDigit c = (48 \<le> c \<and> c \<le> 57)"

definition digits_value :: "jsstring \<Rightarrow> nat" where
  "digits_value ds = foldl (\<lambda>acc c. 10 * acc + (c - 48)) 0 ds"

definition strip_sign :: "jsstring \<Rightarrow> bool \<times> jsstring" where
  "strip_sign s =
     (case s of
        [] \<Rightarrow> (False, [])
      | c # r \<Rightarrow> if c = 45 then (True, r) else if c = 43 then (False, r) else (False, s))"

definition exponent_part :: "jsstring \<Rightarrow> int" where
  "exponent_part s =
     (case s of
        [] \<Rightarrow> 0
      | c # r \<Rightarrow>
          if c = 101 \<or> c = 69 then
            (let (neg, t) = strip_sign r; ds = takeWhile isDigit t in
             if ds = [] then 0
             else if neg then - int (digits_value ds) else int (digits_value ds))
          else 0)"

definition parseFloat :: "jsstring \<Rightarrow> jsnum" where
  "parseFloat s =
     (let (neg, u) = strip_sign (dropWhile isWhiteSpace s) in
      if take 8 u = str ''Infinity'' then (if neg then NInf else PInf)
      else
        let ip = takeWhile isDigit u;
            r1 = dropWhile isDigit u;
            hasDot = (r1 \<noteq> [] \<and> hd r1 = 46);
            fp = (if hasDot then takeWhile isDigit (tl r1) else []);
            r2 = (if hasDot then dropWhile isDigit (tl r1) else r1)
        in if ip = [] \<and> fp = [] then NaN
           else
             let m = real (digits_value (ip @ fp));
                 e = exponent_part r2 - int (length fp);
                 v = (if 0 \<le> e then m * 10 ^ nat e else m / 10 ^ nat (- e))
             in Fin (if neg then - v else v))"

section \<open>App.tsx\<close>

text \<open>
  The four failures of \<open>validateAndParseInput\<close>, each standing for the message the
  source passes to \<open>setError\<close> before it returns \<open>null\<close>:
  \<^item> \<open>WrongCount\<close>: "Please enter exactly N results separated by commas."
  \<^item> \<open>NotANumber\<close>: "Invalid input. Please ensure all values are numbers (e.g., 1.03, 2.5)."
  \<^item> \<open>NegativeValue\<close>: "Multiplier values cannot be negative."
  \<^item> \<open>ZeroValue\<close>: "Multiplier values must be greater than 0 (typically >= 1.00)."
\<close>

datatype ValidationError = WrongCount | NotANumber | NegativeValue | ZeroValue

text \<open>\<open>input.split(',').map(val => val.trim()).filter(val => val !== '')\<close>\<close>

definition inputValues :: "jsstring \<Rightarrow> jsstring list" where
  "inputValues input = filter (\<lambda>val. val \<noteq> []) (map trim (split_comma input))"

text \<open>The built-in \<open>parseFloat\<close> is the parameter \<open>pf\<close>; \<open>selectedHistoryLength\<close> is
  the component state the closure reads.\<close>

definition validateAndParseInput ::
    "(jsstring \<Rightarrow> jsnum) \<Rightarrow> nat \<Rightarrow> jsstring \<Rightarrow> ValidationError + jsnum list" where
  "validateAndParseInput pf selectedHistoryLength input =
     (let vals = inputValues input in
      if length vals \<noteq> selectedHistoryLength then Inl WrongCount
      else
        let numbers = map (\<lambda>val. pf val) vals in
        if list_ex isNaN numbers then Inl NotANumber
        else if list_ex (\<lambda>num. js_lt num (Fin 0)) numbers then Inl NegativeValue
        else if list_ex (\<lambda>num. js_eq num (Fin 0)) numbers then Inl ZeroValue
        else Inr numbers)"

record AppState =
  historyInput :: jsstring
  prediction :: "PredictionResult option"
  error :: "ValidationError option"
  isLoading :: bool
  selectedHistoryLength :: nat
  showFeedbackOptions :: bool
  lastPredictionForFeedback :: "PredictionResult option"
  feedbackMessage :: "jsstring option"

text \<open>\<open>handlePredict\<close> first resets the display, then (in the timer callback, whose
  delay is not modelled) validates and classifies. An array is truthy, also when empty,
  so only \<open>null\<close> takes the \<open>else\<close> branch.\<close>

definition handlePredict_start :: "AppState \<Rightarrow> AppState" where
  "handlePredict_start s =
     s\<lparr>isLoading := True, error := None, prediction := None,
       showFeedbackOptions := False, feedbackMessage := None\<rparr>"

definition handlePredict_timeout :: "(jsstring \<Rightarrow> jsnum) \<Rightarrow> AppState \<Rightarrow> AppState" where
  "handlePredict_timeout pf s =
     (case validateAndParseInput pf (selectedHistoryLength s) (historyInput s) of
        Inr parsedHistory \<Rightarrow>
          (let result = analyzeHistory parsedHistory in
           s\<lparr>error := None, prediction := Some result,
             lastPredictionForFeedback := Some result,
             showFeedbackOptions := True, isLoading := False\<rparr>)
      | Inl e \<Rightarrow>
          s\<lparr>error := Some e, prediction := None,
            showFeedbackOptions := False, isLoading := False\<rparr>)"

definition handlePredict :: "(jsstring \<Rightarrow> jsnum) \<Rightarrow> AppState \<Rightarrow> AppState" where
  "handlePredict pf s = handlePredict_timeout pf (handlePredict_start s)"

section \<open>The BREAKOUT rule without its length guard\<close>

text \<open>The classifier with the test \<open>currentHistoryLength >= 5\<close> of the BREAKOUT rule
  dropped, so that BREAKOUT is decided by the two counts alone; everything else is as in
  \<open>analyzeHistory\<close>.\<close>

definition analyzeHistory_noLengthGuard :: "jsnum list \<Rightarrow> PredictionResult" where
  "analyzeHistory_noLengthGuard history =
     (let currentHistoryLength = length history in
      if currentHistoryLength < 2 then result_of LOW
      else
        let lastValue = history ! (length history - 1) in
        if js_gt lastValue COOLDOWN_THRESHOLD_GT_5X then result_of COOLDOWN
        else if (let countLessThan2x = length (filter (\<lambda>val. js_lt val (Fin 2)) history);
                     countLessThanOrEqualTo1_20x =
                       length (filter (\<lambda>val. js_le val (Fin 1.20)) history)
                 in countLessThan2x \<ge> BREAKOUT_THRESHOLD_COUNT_LT_2X
                    \<and> countLessThanOrEqualTo1_20x \<ge> BREAKOUT_THRESHOLD_COUNT_LTE_1_2X)
        then result_of BREAKOUT
        else if currentHistoryLength \<ge> STABLE_HISTORY_COUNT
                \<and> (let lastNValuesForStableRule = slice_last STABLE_HISTORY_COUNT history
                    in length lastNValuesForStableRule = STABLE_HISTORY_COUNT
                       \<and> list_all (\<lambda>val. js_ge val STABLE_LOWER_BOUND
                                          \<and> js_le val STABLE_UPPER_BOUND)
                            lastNValuesForStableRule)
        then result_of STABLE
        else result_of LOW)"

section \<open>Facts about the classifier\<close>

lemmas rules_defs =
  BREAKOUT_THRESHOLD_COUNT_LT_2X_def BREAKOUT_THRESHOLD_COUNT_LTE_1_2X_def
  COOLDOWN_THRESHOLD_GT_5X_def STABLE_LOWER_BOUND_def STABLE_UPPER_BOUND_def
  STABLE_HISTORY_COUNT_def

lemma category_result_of: "category (result_of c) = c"
  by (simp add: result_of_def Let_def)

lemma lastValue_last:
  "2 \<le> length history \<Longrightarrow> history ! (length history - Suc 0) = last history"
  by (cases history) (simp_all add: last_conv_nth)

lemma js_le_not_gt: "js_le a b \<Longrightarrow> \<not> js_gt a b"
  by (cases a; cases b) (auto simp: js_gt_def js_le_def js_eq_def)

lemma analyzeHistory_short:
  "length history < 2 \<Longrightarrow> analyzeHistory history = result_of LOW"
  by (simp add: analyzeHistory_def)

lemma analyzeHistory_cooldown:
  "2 \<le> length history \<Longrightarrow> js_gt (last history) (Fin 5) \<Longrightarrow>
   analyzeHistory history = result_of COOLDOWN"
  by (simp add: analyzeHistory_def Let_def lastValue_last COOLDOWN_THRESHOLD_GT_5X_def)

lemma analyzeHistory_breakout:
  "2 \<le> length history \<Longrightarrow> \<not> js_gt (last history) (Fin 5) \<Longrightarrow> 5 \<le> length history \<Longrightarrow>
   5 \<le> length (filter (\<lambda>val. js_lt val (Fin 2)) history) \<Longrightarrow>
   2 \<le> length (filter (\<lambda>val. js_le val (Fin 1.20)) history) \<Longrightarrow>
   analyzeHistory history = result_of BREAKOUT"
  by (simp add: analyzeHistory_def Let_def lastValue_last rules_defs)

lemma analyzeHistory_stable:
  "3 \<le> length history \<Longrightarrow> \<not> js_gt (last history) (Fin 5) \<Longrightarrow>
   \<not> (5 \<le> length history \<and> 5 \<le> length (filter (\<lambda>val. js_lt val (Fin 2)) history)
      \<and> 2 \<le> length (filter (\<lambda>val. js_le val (Fin 1.20)) history)) \<Longrightarrow>
   list_all (\<lambda>val. js_ge val (Fin 2) \<and> js_le val (Fin 4)) (slice_last 3 history) \<Longrightarrow>
   analyzeHistory history = result_of STABLE"
  by (auto simp add: analyzeHistory_def Let_def lastValue_last rules_defs slice_last_def)

lemma analyzeHistory_low:
  "2 \<le> length history \<Longrightarrow> \<not> js_gt (last history) (Fin 5) \<Longrightarrow>
   \<not> (5 \<le> length history \<and> 5 \<le> length (filter (\<lambda>val. js_lt val (Fin 2)) history)
      \<and> 2 \<le> length (filter (\<lambda>val. js_le val (Fin 1.20)) history)) \<Longrightarrow>
   \<not> (3 \<le> length history
      \<and> list_all (\<lambda>val. js_ge val (Fin 2) \<and> js_le val (Fin 4)) (slice_last 3 history)) \<Longrightarrow>
   analyzeHistory history = result_of LOW"
  by (auto simp add: analyzeHistory_def Let_def lastValue_last rules_defs slice_last_def)

lemma slice_last_3_append: "slice_last 3 (pre @ [a, b, c]) = [a, b, c]"
  by (simp add: slice_last_def)

text \<open>
  C1. Every history with at least two entries is classified as BREAKOUT, COOLDOWN,
  STABLE or LOW and never as NONE; the classifier has no error outcome: its result is
  always the chosen category paired with that category's profile.
\<close>

theorem C1_category_never_none:
  "2 \<le> length history \<Longrightarrow>
   category (analyzeHistory history) \<in> {BREAKOUT, COOLDOWN, STABLE, LOW}
   \<and> category (analyzeHistory history) \<noteq> NONE
   \<and> analyzeHistory history = result_of (category (analyzeHistory history))"
  by (simp add: analyzeHistory_def Let_def category_result_of)

theorem C1_category_never_none_witness:
  "2 \<le> length [Fin 1.5, NaN]
   \<and> category (analyzeHistory [Fin 1.5, NaN]) \<in> {BREAKOUT, COOLDOWN, STABLE, LOW}
   \<and> category (analyzeHistory [Fin 1.5, NaN]) \<noteq> NONE
   \<and> analyzeHistory [Fin 1.5, NaN] = result_of (category (analyzeHistory [Fin 1.5, NaN]))"
proof -
  have h: "2 \<le> length [Fin 1.5, NaN]" by simp
  from C1_category_never_none [OF h] h show ?thesis by blast
qed

text \<open>
  C2. A history with at least two entries whose last entry is greater than 5 is
  classified COOLDOWN, whatever its other entries are and whether or not the BREAKOUT
  or STABLE conditions hold as well.
\<close>

theorem C2_cooldown_first:
  "2 \<le> length history \<Longrightarrow> js_gt (last history) (Fin 5) \<Longrightarrow>
   category (analyzeHistory history) = COOLDOWN
   \<and> analyzeHistory history = result_of COOLDOWN"
  by (simp add: analyzeHistory_cooldown category_result_of)

text \<open>The history of the claim, and one on which the two BREAKOUT counts are reached
  as well.\<close>

theorem C2_cooldown_first_witness:
  "2 \<le> length [Fin 1.0, Fin 1.1, Fin 1.15, Fin 1.18, Fin 6.0]
   \<and> js_gt (last [Fin 1.0, Fin 1.1, Fin 1.15, Fin 1.18, Fin 6.0]) (Fin 5)
   \<and> category (analyzeHistory [Fin 1.0, Fin 1.1, Fin 1.15, Fin 1.18, Fin 6.0]) = COOLDOWN
   \<and> 5 \<le> length (filter (\<lambda>val. js_lt val (Fin 2)) [Fin 1, Fin 1, Fin 1, Fin 1, Fin 1, Fin 6])
   \<and> 2 \<le> length (filter (\<lambda>val. js_le val (Fin 1.20)) [Fin 1, Fin 1, Fin 1, Fin 1, Fin 1, Fin 6])
   \<and> category (analyzeHistory [Fin 1, Fin 1, Fin 1, Fin 1, Fin 1, Fin 6]) = COOLDOWN"
proof -
  have h1: "2 \<le> length [Fin 1.0, Fin 1.1, Fin 1.15, Fin 1.18, Fin 6.0]" by simp
  have h2: "js_gt (last [Fin 1.0, Fin 1.1, Fin 1.15, Fin 1.18, Fin 6.0]) (Fin 5)"
    by (simp add: js_gt_def)
  have k1: "2 \<le> length [Fin 1, Fin 1, Fin 1, Fin 1, Fin 1, Fin 6]" by simp
  have k2: "js_gt (last [Fin 1, Fin 1, Fin 1, Fin 1, Fin 1, Fin 6]) (Fin 5)"
    by (simp add: js_gt_def)
  have k3: "5 \<le> length (filter (\<lambda>val. js_lt val (Fin 2)) [Fin 1, Fin 1, Fin 1, Fin 1, Fin 1, Fin 6])"
    by simp
  have k4: "2 \<le> length (filter (\<lambda>val. js_le val (Fin 1.20)) [Fin 1, Fin 1, Fin 1, Fin 1, Fin 1, Fin 6])"
    by (simp add: js_le_def)
  from C2_cooldown_first [OF h1 h2] C2_cooldown_first [OF k1 k2] h1 h2 k3 k4
  show ?thesis by blast
qed

text \<open>
  C3. A history with at least two entries whose last entry is at most 5, that has at
  least five entries, at least five entries below 2 and at least two entries at most
  1.20 (both counted over the whole history), is classified BREAKOUT.
\<close>

theorem C3_breakout:
  "2 \<le> length history \<Longrightarrow> js_le (last history) (Fin 5) \<Longrightarrow> 5 \<le> length history \<Longrightarrow>
   5 \<le> length (filter (\<lambda>val. js_lt val (Fin 2)) history) \<Longrightarrow>
   2 \<le> length (filter (\<lambda>val. js_le val (Fin 1.20)) history) \<Longrightarrow>
   category (analyzeHistory history) = BREAKOUT
   \<and> analyzeHistory history = result_of BREAKOUT"
  by (simp add: analyzeHistory_breakout js_le_not_gt category_result_of)

theorem C3_breakout_witness:
  "2 \<le> length [Fin 1.0, Fin 1.1, Fin 1.15, Fin 1.18, Fin 1.5]
   \<and> js_le (last [Fin 1.0, Fin 1.1, Fin 1.15, Fin 1.18, Fin 1.5]) (Fin 5)
   \<and> 5 \<le> length (filter (\<lambda>val. js_lt val (Fin 2)) [Fin 1.0, Fin 1.1, Fin 1.15, Fin 1.18, Fin 1.5])
   \<and> 2 \<le> length (filter (\<lambda>val. js_le val (Fin 1.20)) [Fin 1.0, Fin 1.1, Fin 1.15, Fin 1.18, Fin 1.5])
   \<and> category (analyzeHistory [Fin 1.0, Fin 1.1, Fin 1.15, Fin 1.18, Fin 1.5]) = BREAKOUT"
proof -
  let ?h = "[Fin 1.0, Fin 1.1, Fin 1.15, Fin 1.18, Fin 1.5]"
  have h1: "2 \<le> length ?h" by simp
  have h2: "js_le (last ?h) (Fin 5)" by (simp add: js_le_def)
  have h3: "5 \<le> length ?h" by simp
  have h4: "5 \<le> length (filter (\<lambda>val. js_lt val (Fin 2)) ?h)" by simp
  have h5: "2 \<le> length (filter (\<lambda>val. js_le val (Fin 1.20)) ?h)" by (simp add: js_le_def)
  from C3_breakout [OF h1 h2 h3 h4 h5] h1 h2 h4 h5 show ?thesis by blast
qed

text \<open>Every history with at least three entries is a prefix followed by its last
  three entries.\<close>

lemma length_three: "length xs = 3 \<Longrightarrow> \<exists>a b c. xs = [a, b, c]"
  by (auto simp: length_Suc_conv numeral_3_eq_3)

lemma history_last_three:
  "3 \<le> length history \<Longrightarrow> \<exists>pre a b c. history = pre @ [a, b, c]"
proof -
  assume len: "3 \<le> length history"
  let ?d = "drop (length history - 3) history"
  from len have "length ?d = 3" by simp
  then obtain a b c where "?d = [a, b, c]"
    using length_three [of ?d] by blast
  then have "history = take (length history - 3) history @ [a, b, c]"
    by (metis append_take_drop_id)
  then show ?thesis by blast
qed

text \<open>
  C4. When the last entry is at most 5 and the BREAKOUT conditions do not all hold, a
  history whose last three entries all lie between 2 and 4 (bounds included) is
  classified STABLE, whatever stands in front of those three entries.
\<close>

theorem C4_stable_suffix:
  "history = pre @ [a, b, c] \<Longrightarrow> js_le c (Fin 5) \<Longrightarrow>
   \<not> (5 \<le> length history \<and> 5 \<le> length (filter (\<lambda>val. js_lt val (Fin 2)) history)
      \<and> 2 \<le> length (filter (\<lambda>val. js_le val (Fin 1.20)) history)) \<Longrightarrow>
   js_ge a (Fin 2) \<and> js_le a (Fin 4) \<Longrightarrow>
   js_ge b (Fin 2) \<and> js_le b (Fin 4) \<Longrightarrow>
   js_ge c (Fin 2) \<and> js_le c (Fin 4) \<Longrightarrow>
   category (analyzeHistory history) = STABLE
   \<and> analyzeHistory history = result_of STABLE"
proof -
  assume h: "history = pre @ [a, b, c]" and c5: "js_le c (Fin 5)"
    and nb: "\<not> (5 \<le> length history \<and> 5 \<le> length (filter (\<lambda>val. js_lt val (Fin 2)) history)
      \<and> 2 \<le> length (filter (\<lambda>val. js_le val (Fin 1.20)) history))"
    and a: "js_ge a (Fin 2) \<and> js_le a (Fin 4)"
    and b: "js_ge b (Fin 2) \<and> js_le b (Fin 4)"
    and c: "js_ge c (Fin 2) \<and> js_le c (Fin 4)"
  from h have len: "3 \<le> length history" by simp
  from h have "last history = c" by simp
  with c5 have ng: "\<not> js_gt (last history) (Fin 5)" by (simp add: js_le_not_gt)
  from h a b c
  have st: "list_all (\<lambda>val. js_ge val (Fin 2) \<and> js_le val (Fin 4)) (slice_last 3 history)"
    by (simp add: slice_last_3_append)
  from analyzeHistory_stable [OF len ng nb st] show ?thesis
    by (simp add: category_result_of)
qed

theorem C4_stable_suffix_witness:
  "[Fin 5.0, Fin 2.5, Fin 3.0, Fin 3.5] = [Fin 5.0] @ [Fin 2.5, Fin 3.0, Fin 3.5]
   \<and> js_le (Fin 3.5) (Fin 5)
   \<and> length [Fin 5.0, Fin 2.5, Fin 3.0, Fin 3.5] < 5
   \<and> js_gt (Fin 5.0) (Fin 4)
   \<and> category (analyzeHistory [Fin 5.0, Fin 2.5, Fin 3.0, Fin 3.5]) = STABLE"
proof -
  let ?h = "[Fin 5.0, Fin 2.5, Fin 3.0, Fin 3.5]"
  have h1: "?h = [Fin 5.0] @ [Fin 2.5, Fin 3.0, Fin 3.5]" by simp
  have h2: "js_le (Fin 3.5) (Fin 5)" by (simp add: js_le_def)
  have h3: "\<not> (5 \<le> length ?h \<and> 5 \<le> length (filter (\<lambda>val. js_lt val (Fin 2)) ?h)
      \<and> 2 \<le> length (filter (\<lambda>val. js_le val (Fin 1.20)) ?h))" by simp
  have a: "js_ge (Fin 2.5) (Fin 2) \<and> js_le (Fin 2.5) (Fin 4)" by (simp add: js_le_def js_ge_def)
  have b: "js_ge (Fin 3.0) (Fin 2) \<and> js_le (Fin 3.0) (Fin 4)" by (simp add: js_le_def js_ge_def)
  have c: "js_ge (Fin 3.5) (Fin 2) \<and> js_le (Fin 3.5) (Fin 4)" by (simp add: js_le_def js_ge_def)
  have l: "length ?h < 5" by simp
  have g: "js_gt (Fin 5.0) (Fin 4)" by (simp add: js_gt_def)
  from C4_stable_suffix [OF h1 h2 h3 a b c] h1 h2 l g show ?thesis by blast
qed

text \<open>
  C5. A history with at least two entries on which no other rule fires (the last entry
  is at most 5; it has fewer than five entries or one of the two BREAKOUT counts falls
  short; it has fewer than three entries or one of its last three entries lies outside
  the range from 2 to 4) is classified LOW.
\<close>

theorem C5_low_fallback:
  "2 \<le> length history \<Longrightarrow> js_le (last history) (Fin 5) \<Longrightarrow>
   length history < 5 \<or> length (filter (\<lambda>val. js_lt val (Fin 2)) history) < 5
     \<or> length (filter (\<lambda>val. js_le val (Fin 1.20)) history) < 2 \<Longrightarrow>
   length history < 3
     \<or> list_ex (\<lambda>val. \<not> (js_ge val (Fin 2) \<and> js_le val (Fin 4))) (slice_last 3 history) \<Longrightarrow>
   category (analyzeHistory history) = LOW
   \<and> analyzeHistory history = result_of LOW"
proof -
  assume len: "2 \<le> length history" and le: "js_le (last history) (Fin 5)"
    and nb: "length history < 5 \<or> length (filter (\<lambda>val. js_lt val (Fin 2)) history) < 5
     \<or> length (filter (\<lambda>val. js_le val (Fin 1.20)) history) < 2"
    and ns: "length history < 3
     \<or> list_ex (\<lambda>val. \<not> (js_ge val (Fin 2) \<and> js_le val (Fin 4))) (slice_last 3 history)"
  from le have ng: "\<not> js_gt (last history) (Fin 5)" by (rule js_le_not_gt)
  from nb have nb': "\<not> (5 \<le> length history
      \<and> 5 \<le> length (filter (\<lambda>val. js_lt val (Fin 2)) history)
      \<and> 2 \<le> length (filter (\<lambda>val. js_le val (Fin 1.20)) history))"
    by auto
  from ns have ns': "\<not> (3 \<le> length history
      \<and> list_all (\<lambda>val. js_ge val (Fin 2) \<and> js_le val (Fin 4)) (slice_last 3 history))"
    by (auto simp: list_all_iff list_ex_iff)
  from analyzeHistory_low [OF len ng nb' ns'] show ?thesis
    by (simp add: category_result_of)
qed

text \<open>The history of the claim, too short for the two later rules, and a history of six
  entries on which every rule is tried and fails.\<close>

theorem C5_low_fallback_witness:
  "2 \<le> length [Fin 1.0, Fin 1.0] \<and> js_le (last [Fin 1.0, Fin 1.0]) (Fin 5)
   \<and> length [Fin 1.0, Fin 1.0] < 3
   \<and> category (analyzeHistory [Fin 1.0, Fin 1.0]) = LOW
   \<and> category (analyzeHistory [Fin 1, Fin 3, Fin 1, Fin 3, Fin 1.5, Fin 3]) = LOW"
proof -
  let ?h = "[Fin 1.0, Fin 1.0]"
  let ?k = "[Fin 1, Fin 3, Fin 1, Fin 3, Fin 1.5, Fin 3]"
  have h1: "2 \<le> length ?h" by simp
  have h2: "js_le (last ?h) (Fin 5)" by (simp add: js_le_def)
  have h3: "length ?h < 5 \<or> length (filter (\<lambda>val. js_lt val (Fin 2)) ?h) < 5
     \<or> length (filter (\<lambda>val. js_le val (Fin 1.20)) ?h) < 2" by simp
  have h4: "length ?h < 3" by simp
  then have h5: "length ?h < 3
     \<or> list_ex (\<lambda>val. \<not> (js_ge val (Fin 2) \<and> js_le val (Fin 4))) (slice_last 3 ?h)" ..
  have k1: "2 \<le> length ?k" by simp
  have k2: "js_le (last ?k) (Fin 5)" by (simp add: js_le_def)
  have k3: "length ?k < 5 \<or> length (filter (\<lambda>val. js_lt val (Fin 2)) ?k) < 5
     \<or> length (filter (\<lambda>val. js_le val (Fin 1.20)) ?k) < 2" by simp
  have k4: "length ?k < 3
     \<or> list_ex (\<lambda>val. \<not> (js_ge val (Fin 2) \<and> js_le val (Fin 4))) (slice_last 3 ?k)"
    by (simp add: slice_last_def js_ge_def js_le_def js_eq_def)
  from C5_low_fallback [OF h1 h2 h3 h5] C5_low_fallback [OF k1 k2 k3 k4] h1 h2 h4
  show ?thesis by blast
qed

text \<open>
  C9. Outside the documented precondition the classifier still returns: a history with
  no entry or one entry is classified LOW, also when its single entry is greater than
  5, because the test on the length comes before the COOLDOWN test.
\<close>

theorem C9_short_history_low:
  "length history < 2 \<Longrightarrow>
   category (analyzeHistory history) = LOW \<and> analyzeHistory history = result_of LOW"
  by (simp add: analyzeHistory_short category_result_of)

theorem C9_short_history_low_witness:
  "length [Fin 6.0] < 2 \<and> js_gt (last [Fin 6.0]) (Fin 5)
   \<and> category (analyzeHistory [Fin 6.0]) = LOW
   \<and> category (analyzeHistory []) = LOW"
proof -
  have h: "length [Fin 6.0] < 2" by simp
  have e: "length ([] :: jsnum list) < 2" by simp
  have g: "js_gt (last [Fin 6.0]) (Fin 5)" by (simp add: js_gt_def)
  from C9_short_history_low [OF h] C9_short_history_low [OF e] h g show ?thesis by blast
qed

text \<open>
  C10. The test on the length in the BREAKOUT rule is redundant: the classifier that
  decides BREAKOUT from the two counts alone returns the same result on every history,
  since five entries below 2 can only be found among at least five entries.
\<close>

theorem C10_length_guard_redundant:
  "analyzeHistory_noLengthGuard history = analyzeHistory history"
proof -
  have le: "length (filter (\<lambda>val. js_lt val (Fin 2)) history) \<le> length history"
    by (rule length_filter_le)
  have guard: "(5 \<le> length history
        \<and> 5 \<le> length (filter (\<lambda>val. js_lt val (Fin 2)) history) \<and> Q)
      = (5 \<le> length (filter (\<lambda>val. js_lt val (Fin 2)) history) \<and> Q)" for Q
    using order_trans [OF _ le] by blast
  show ?thesis
    unfolding analyzeHistory_noLengthGuard_def analyzeHistory_def Let_def
      BREAKOUT_THRESHOLD_COUNT_LT_2X_def
    by (simp only: guard)
qed

section \<open>Facts about the validator\<close>

lemma split_comma_not_Nil: "split_comma s \<noteq> []"
  by (induction s) (auto split: list.splits)

lemma join_comma_Cons: "ps \<noteq> [] \<Longrightarrow> join_comma (p # ps) = p @ 44 # join_comma ps"
  by (cases ps) simp_all

lemma join_comma_Cons_hd: "join_comma ((c # p) # ps) = c # join_comma (p # ps)"
  by (cases ps) simp_all

lemma join_split_comma: "join_comma (split_comma s) = s"
proof (induction s)
  case Nil
  show ?case by simp
next
  case (Cons c cs)
  show ?case
  proof (cases "c = 44")
    case True
    with Cons show ?thesis by (simp add: join_comma_Cons split_comma_not_Nil)
  next
    case False
    obtain p ps where sp: "split_comma cs = p # ps"
      using split_comma_not_Nil [of cs] by (cases "split_comma cs") auto
    with Cons False show ?thesis by (simp add: join_comma_Cons_hd)
  qed
qed

lemma split_comma_no_comma: "p \<in> set (split_comma s) \<Longrightarrow> 44 \<notin> set p"
proof (induction s arbitrary: p)
  case Nil
  then show ?case by simp
next
  case (Cons c cs)
  obtain q qs where sp: "split_comma cs = q # qs"
    using split_comma_not_Nil [of cs] by (cases "split_comma cs") auto
  from Cons.IH [of q] sp have q: "44 \<notin> set q" by simp
  from Cons.IH sp have qs: "\<And>r. r \<in> set qs \<Longrightarrow> 44 \<notin> set r" by simp
  from Cons.prems sp q qs show ?case by (auto split: if_splits)
qed

lemma split_comma_at_comma: "split_comma (a @ 44 # b) = split_comma a @ split_comma b"
proof (induction a)
  case Nil
  show ?case by simp
next
  case (Cons c cs)
  obtain q qs where sp: "split_comma cs = q # qs"
    using split_comma_not_Nil [of cs] by (cases "split_comma cs") auto
  with Cons show ?case by simp
qed

lemma trim_Nil: "trim [] = []"
  by (simp add: trim_def)

lemma inputValues_Nil: "inputValues [] = []"
  by (simp add: inputValues_def trim_Nil)

lemma inputValues_at_comma: "inputValues (a @ 44 # b) = inputValues a @ inputValues b"
  by (simp add: inputValues_def split_comma_at_comma)

lemma trim_decomp:
  "\<exists>a b. s = a @ trim s @ b \<and> list_all isWhiteSpace a \<and> list_all isWhiteSpace b"
proof -
  let ?a = "takeWhile isWhiteSpace s"
  let ?r = "dropWhile isWhiteSpace s"
  let ?b = "rev (takeWhile isWhiteSpace (rev ?r))"
  have "rev ?r = takeWhile isWhiteSpace (rev ?r) @ dropWhile isWhiteSpace (rev ?r)" by simp
  then have "?r = trim s @ ?b"
    unfolding trim_def by (metis rev_append rev_rev_ident)
  then have "s = ?a @ trim s @ ?b" by (metis takeWhile_dropWhile_id)
  moreover have "list_all isWhiteSpace ?a"
    by (simp add: list_all_iff) (metis set_takeWhileD)
  moreover have "list_all isWhiteSpace ?b"
    by (simp add: list_all_iff) (metis set_takeWhileD)
  ultimately show ?thesis by blast
qed

lemma trim_ends:
  "trim s \<noteq> [] \<Longrightarrow> \<not> isWhiteSpace (hd (trim s)) \<and> \<not> isWhiteSpace (last (trim s))"
proof -
  assume ne: "trim s \<noteq> []"
  let ?r = "dropWhile isWhiteSpace s"
  let ?t = "dropWhile isWhiteSpace (rev ?r)"
  from ne have t: "?t \<noteq> []" by (simp add: trim_def)
  then have "\<not> isWhiteSpace (hd ?t)" by (rule hd_dropWhile)
  then have l: "\<not> isWhiteSpace (last (trim s))" using t by (simp add: trim_def last_rev)
  from t have r: "?r \<noteq> []" by (metis dropWhile.simps(1) rev_is_Nil_conv)
  then have hr: "\<not> isWhiteSpace (hd ?r)" by (rule hd_dropWhile)
  obtain b where "?r = trim s @ b"
    by (metis trim_def rev_append rev_rev_ident takeWhile_dropWhile_id)
  with ne have "hd (trim s) = hd ?r" by simp
  with hr l show ?thesis by simp
qed

lemma trim_no_comma: "44 \<notin> set p \<Longrightarrow> 44 \<notin> set (trim p)"
  unfolding trim_def by (metis set_dropWhileD set_rev)

lemma inputValues_piece:
  assumes "v \<in> set (inputValues input)"
  shows "v \<noteq> [] \<and> 44 \<notin> set v \<and> \<not> isWhiteSpace (hd v) \<and> \<not> isWhiteSpace (last v)
    \<and> (\<exists>p a b. p \<in> set (split_comma input) \<and> p = a @ v @ b
          \<and> list_all isWhiteSpace a \<and> list_all isWhiteSpace b)"
proof -
  from assms obtain p where p: "p \<in> set (split_comma input)" and v: "v = trim p" and ne: "v \<noteq> []"
    by (auto simp: inputValues_def)
  from p have "44 \<notin> set p" by (rule split_comma_no_comma)
  then have nc: "44 \<notin> set v" unfolding v by (rule trim_no_comma)
  from ne v have ends: "\<not> isWhiteSpace (hd v) \<and> \<not> isWhiteSpace (last v)"
    using trim_ends [of p] by simp
  from trim_decomp [of p] v obtain a b
    where "p = a @ v @ b" "list_all isWhiteSpace a" "list_all isWhiteSpace b" by auto
  with p ne nc ends show ?thesis by blast
qed

lemma validate_success:
  "validateAndParseInput pf n input = Inr numbers \<Longrightarrow>
   length (inputValues input) = n \<and> numbers = map pf (inputValues input)
   \<and> \<not> list_ex isNaN numbers \<and> \<not> list_ex (\<lambda>num. js_lt num (Fin 0)) numbers
   \<and> \<not> list_ex (\<lambda>num. js_eq num (Fin 0)) numbers"
  by (auto simp: validateAndParseInput_def Let_def split: if_splits)

lemmas eval_defs =
  validateAndParseInput_def inputValues_def str_def trim_def isWhiteSpace_def parseFloat_def
  strip_sign_def exponent_part_def isDigit_def digits_value_def isNaN_def js_eq_def Let_def

text \<open>
  C6. The validator splits the input at its commas, trims each piece and drops the
  pieces that are then empty: the pieces joined by commas are the input again, no piece
  holds a comma, every value kept is a piece without its leading and trailing white
  space and is not empty, so a trailing or a repeated comma adds no value. On success
  the numbers returned are the parses of the kept values, in their order.
\<close>

theorem C6_split_trim_filter:
  "(\<forall>numbers. validateAndParseInput pf n input = Inr numbers
       \<longrightarrow> numbers = map pf (inputValues input))
   \<and> inputValues input = filter (\<lambda>val. val \<noteq> []) (map trim (split_comma input))
   \<and> join_comma (split_comma input) = input
   \<and> (\<forall>p \<in> set (split_comma input). 44 \<notin> set p)
   \<and> (\<forall>v \<in> set (inputValues input).
         v \<noteq> [] \<and> 44 \<notin> set v \<and> \<not> isWhiteSpace (hd v) \<and> \<not> isWhiteSpace (last v)
         \<and> (\<exists>p a b. p \<in> set (split_comma input) \<and> p = a @ v @ b
               \<and> list_all isWhiteSpace a \<and> list_all isWhiteSpace b))
   \<and> inputValues (input @ [44]) = inputValues input
   \<and> inputValues (input @ [44, 44] @ rest) = inputValues (input @ [44] @ rest)"
proof -
  have 1: "\<forall>numbers. validateAndParseInput pf n input = Inr numbers
       \<longrightarrow> numbers = map pf (inputValues input)"
    using validate_success by blast
  have 2: "inputValues input = filter (\<lambda>val. val \<noteq> []) (map trim (split_comma input))"
    by (simp add: inputValues_def)
  have 3: "join_comma (split_comma input) = input" by (rule join_split_comma)
  have 4: "\<forall>p \<in> set (split_comma input). 44 \<notin> set p"
    using split_comma_no_comma by blast
  have 5: "\<forall>v \<in> set (inputValues input).
         v \<noteq> [] \<and> 44 \<notin> set v \<and> \<not> isWhiteSpace (hd v) \<and> \<not> isWhiteSpace (last v)
         \<and> (\<exists>p a b. p \<in> set (split_comma input) \<and> p = a @ v @ b
               \<and> list_all isWhiteSpace a \<and> list_all isWhiteSpace b)"
    using inputValues_piece by blast
  have 6: "inputValues (input @ [44]) = inputValues input"
    using inputValues_at_comma [of input "[]"] by (simp add: inputValues_Nil)
  have "inputValues (input @ [44, 44] @ rest) = inputValues input @ inputValues (44 # rest)"
    using inputValues_at_comma [of input "44 # rest"] by simp
  also have "inputValues (44 # rest) = inputValues rest"
    using inputValues_at_comma [of "[]" rest] by (simp add: inputValues_Nil)
  finally have 7: "inputValues (input @ [44, 44] @ rest) = inputValues (input @ [44] @ rest)"
    using inputValues_at_comma [of input rest] by simp
  from 1 2 3 4 5 6 7 show ?thesis by blast
qed

text \<open>The input of the claim, with an empty piece in the middle and a trailing comma.\<close>

theorem C6_split_trim_filter_witness:
  "split_comma (str ''1.0, , 2.0,'') = [str ''1.0'', str '' '', str '' 2.0'', []]
   \<and> inputValues (str ''1.0, , 2.0,'') = [str ''1.0'', str ''2.0'']
   \<and> validateAndParseInput parseFloat 2 (str ''1.0, , 2.0,'') = Inr [Fin 1.0, Fin 2.0]
   \<and> [Fin 1.0, Fin 2.0] = map parseFloat (inputValues (str ''1.0, , 2.0,''))"
proof -
  have a: "split_comma (str ''1.0, , 2.0,'') = [str ''1.0'', str '' '', str '' 2.0'', []]"
    by (simp add: str_def)
  have b: "inputValues (str ''1.0, , 2.0,'') = [str ''1.0'', str ''2.0'']"
    by (simp add: inputValues_def str_def trim_def isWhiteSpace_def)
  have c: "validateAndParseInput parseFloat 2 (str ''1.0, , 2.0,'') = Inr [Fin 1.0, Fin 2.0]"
    by (simp add: eval_defs)
  from C6_split_trim_filter [of parseFloat 2 "str ''1.0, , 2.0,''"] c
  have "[Fin 1.0, Fin 2.0] = map parseFloat (inputValues (str ''1.0, , 2.0,''))" by blast
  with a b c show ?thesis by blast
qed

lemma handlePredict_failure:
  "validateAndParseInput pf (selectedHistoryLength s) (historyInput s) = Inl e \<Longrightarrow>
   prediction (handlePredict pf s) = None \<and> error (handlePredict pf s) = Some e"
  by (simp add: handlePredict_def handlePredict_timeout_def handlePredict_start_def)

lemma positive_of_checks:
  "\<not> isNaN x \<Longrightarrow> \<not> js_lt x (Fin 0) \<Longrightarrow> \<not> js_eq x (Fin 0) \<Longrightarrow> js_gt x (Fin 0)"
  by (cases x) (auto simp: isNaN_def js_eq_def js_gt_def)

text \<open>
  C7. The validator tests for a wrong count, then for a value that is not a number,
  then for a negative value, then for a zero, and reports the first of these that
  applies, whatever later tests would have found; when it fails, \<open>handlePredict\<close>
  stores the error and no prediction.
\<close>

theorem C7_error_priority:
  "(length (inputValues input) \<noteq> n \<longrightarrow> validateAndParseInput pf n input = Inl WrongCount)
   \<and> (length (inputValues input) = n
        \<and> list_ex isNaN (map pf (inputValues input))
      \<longrightarrow> validateAndParseInput pf n input = Inl NotANumber)
   \<and> (length (inputValues input) = n
        \<and> \<not> list_ex isNaN (map pf (inputValues input))
        \<and> list_ex (\<lambda>num. js_lt num (Fin 0)) (map pf (inputValues input))
      \<longrightarrow> validateAndParseInput pf n input = Inl NegativeValue)
   \<and> (length (inputValues input) = n
        \<and> \<not> list_ex isNaN (map pf (inputValues input))
        \<and> \<not> list_ex (\<lambda>num. js_lt num (Fin 0)) (map pf (inputValues input))
        \<and> list_ex (\<lambda>num. js_eq num (Fin 0)) (map pf (inputValues input))
      \<longrightarrow> validateAndParseInput pf n input = Inl ZeroValue)
   \<and> (\<forall>e s. historyInput s = input \<and> selectedHistoryLength s = n
        \<and> validateAndParseInput pf n input = Inl e
      \<longrightarrow> prediction (handlePredict pf s) = None \<and> error (handlePredict pf s) = Some e)"
proof -
  have 1: "length (inputValues input) \<noteq> n \<longrightarrow> validateAndParseInput pf n input = Inl WrongCount"
    by (simp add: validateAndParseInput_def Let_def)
  have 2: "length (inputValues input) = n
        \<and> list_ex isNaN (map pf (inputValues input))
      \<longrightarrow> validateAndParseInput pf n input = Inl NotANumber"
    by (simp add: validateAndParseInput_def Let_def)
  have 3: "length (inputValues input) = n
        \<and> \<not> list_ex isNaN (map pf (inputValues input))
        \<and> list_ex (\<lambda>num. js_lt num (Fin 0)) (map pf (inputValues input))
      \<longrightarrow> validateAndParseInput pf n input = Inl NegativeValue"
    by (simp add: validateAndParseInput_def Let_def)
  have 4: "length (inputValues input) = n
        \<and> \<not> list_ex isNaN (map pf (inputValues input))
        \<and> \<not> list_ex (\<lambda>num. js_lt num (Fin 0)) (map pf (inputValues input))
        \<and> list_ex (\<lambda>num. js_eq num (Fin 0)) (map pf (inputValues input))
      \<longrightarrow> validateAndParseInput pf n input = Inl ZeroValue"
    by (simp add: validateAndParseInput_def Let_def)
  have 5: "\<forall>e s. historyInput s = input \<and> selectedHistoryLength s = n
        \<and> validateAndParseInput pf n input = Inl e
      \<longrightarrow> prediction (handlePredict pf s) = None \<and> error (handlePredict pf s) = Some e"
    using handlePredict_failure by blast
  from 1 2 3 4 5 show ?thesis by blast
qed

text \<open>Inputs on which several tests would fail: three values, of which one is not a
  number, one is negative and one is zero, where two or three are required; a negative
  value and a zero; and a zero alone.\<close>

theorem C7_error_priority_witness:
  "length (inputValues (str ''abc, -1, 0'')) = 3
   \<and> list_ex isNaN (map parseFloat (inputValues (str ''abc, -1, 0'')))
   \<and> list_ex (\<lambda>num. js_lt num (Fin 0)) (map parseFloat (inputValues (str ''abc, -1, 0'')))
   \<and> list_ex (\<lambda>num. js_eq num (Fin 0)) (map parseFloat (inputValues (str ''abc, -1, 0'')))
   \<and> validateAndParseInput parseFloat 2 (str ''abc, -1, 0'') = Inl WrongCount
   \<and> validateAndParseInput parseFloat 3 (str ''abc, -1, 0'') = Inl NotANumber
   \<and> list_ex (\<lambda>num. js_eq num (Fin 0)) (map parseFloat (inputValues (str ''-1, 0'')))
   \<and> validateAndParseInput parseFloat 2 (str ''-1, 0'') = Inl NegativeValue
   \<and> validateAndParseInput parseFloat 2 (str ''1.5, 0'') = Inl ZeroValue
   \<and> prediction (handlePredict parseFloat
        \<lparr>historyInput = str ''1.5, 0'', prediction = Some (result_of STABLE), error = None,
         isLoading = False, selectedHistoryLength = 2, showFeedbackOptions = True,
         lastPredictionForFeedback = None, feedbackMessage = None\<rparr>) = None
   \<and> error (handlePredict parseFloat
        \<lparr>historyInput = str ''1.5, 0'', prediction = Some (result_of STABLE), error = None,
         isLoading = False, selectedHistoryLength = 2, showFeedbackOptions = True,
         lastPredictionForFeedback = None, feedbackMessage = None\<rparr>) = Some ZeroValue"
proof -
  let ?i = "str ''abc, -1, 0''"
  let ?s = "\<lparr>historyInput = str ''1.5, 0'', prediction = Some (result_of STABLE), error = None,
         isLoading = False, selectedHistoryLength = 2, showFeedbackOptions = True,
         lastPredictionForFeedback = None, feedbackMessage = None\<rparr>"
  have v: "inputValues ?i = [str ''abc'', str ''-1'', str ''0'']"
    by (simp add: inputValues_def str_def trim_def isWhiteSpace_def)
  have p: "map parseFloat (inputValues ?i) = [NaN, Fin (- 1), Fin 0]"
    unfolding v by (simp add: eval_defs)
  have a1: "length (inputValues ?i) = 3" unfolding v by simp
  have a2: "list_ex isNaN (map parseFloat (inputValues ?i))"
    unfolding p by (simp add: isNaN_def)
  have a3: "list_ex (\<lambda>num. js_lt num (Fin 0)) (map parseFloat (inputValues ?i))"
    unfolding p by simp
  have a4: "list_ex (\<lambda>num. js_eq num (Fin 0)) (map parseFloat (inputValues ?i))"
    unfolding p by (simp add: js_eq_def)
  have w: "validateAndParseInput parseFloat 2 ?i = Inl WrongCount"
    using C7_error_priority [of ?i 2 parseFloat] a1 by simp
  have n: "validateAndParseInput parseFloat 3 ?i = Inl NotANumber"
    using C7_error_priority [of ?i 3 parseFloat] a1 a2 by blast
  have v2: "inputValues (str ''-1, 0'') = [str ''-1'', str ''0'']"
    by (simp add: inputValues_def str_def trim_def isWhiteSpace_def)
  have p2: "map parseFloat (inputValues (str ''-1, 0'')) = [Fin (- 1), Fin 0]"
    unfolding v2 by (simp add: eval_defs)
  have b1: "length (inputValues (str ''-1, 0'')) = 2" unfolding v2 by simp
  have b2: "\<not> list_ex isNaN (map parseFloat (inputValues (str ''-1, 0'')))"
    unfolding p2 by (simp add: isNaN_def)
  have b3: "list_ex (\<lambda>num. js_lt num (Fin 0)) (map parseFloat (inputValues (str ''-1, 0'')))"
    unfolding p2 by simp
  have b4: "list_ex (\<lambda>num. js_eq num (Fin 0)) (map parseFloat (inputValues (str ''-1, 0'')))"
    unfolding p2 by (simp add: js_eq_def)
  have g: "validateAndParseInput parseFloat 2 (str ''-1, 0'') = Inl NegativeValue"
    using C7_error_priority [of "str ''-1, 0''" 2 parseFloat] b1 b2 b3 by blast
  have v3: "inputValues (str ''1.5, 0'') = [str ''1.5'', str ''0'']"
    by (simp add: inputValues_def str_def trim_def isWhiteSpace_def)
  have p3: "map parseFloat (inputValues (str ''1.5, 0'')) = [Fin 1.5, Fin 0]"
    unfolding v3 by (simp add: eval_defs)
  have c1: "length (inputValues (str ''1.5, 0'')) = 2" unfolding v3 by simp
  have c2: "\<not> list_ex isNaN (map parseFloat (inputValues (str ''1.5, 0'')))"
    unfolding p3 by (simp add: isNaN_def)
  have c3: "\<not> list_ex (\<lambda>num. js_lt num (Fin 0)) (map parseFloat (inputValues (str ''1.5, 0'')))"
    unfolding p3 by simp
  have c4: "list_ex (\<lambda>num. js_eq num (Fin 0)) (map parseFloat (inputValues (str ''1.5, 0'')))"
    unfolding p3 by (simp add: js_eq_def)
  have z: "validateAndParseInput parseFloat 2 (str ''1.5, 0'') = Inl ZeroValue"
    using C7_error_priority [of "str ''1.5, 0''" 2 parseFloat] c1 c2 c3 c4 by blast
  have s1: "historyInput ?s = str ''1.5, 0''" by simp
  have s2: "selectedHistoryLength ?s = 2" by simp
  have h: "prediction (handlePredict parseFloat ?s) = None
      \<and> error (handlePredict parseFloat ?s) = Some ZeroValue"
    using C7_error_priority [of "str ''1.5, 0''" 2 parseFloat] s1 s2 z by blast
  from a1 a2 a3 a4 w n b4 g z h show ?thesis by blast
qed

text \<open>
  C8. When the validator succeeds, the sequence it returns has exactly the required
  length, and every entry is a number (not NaN) strictly greater than 0.
\<close>

theorem C8_validated_history:
  "validateAndParseInput pf n input = Inr numbers \<Longrightarrow>
   length numbers = n \<and> list_all (\<lambda>num. js_gt num (Fin 0) \<and> \<not> isNaN num) numbers"
proof -
  assume ok: "validateAndParseInput pf n input = Inr numbers"
  from validate_success [OF ok]
  have len: "length (inputValues input) = n" and num: "numbers = map pf (inputValues input)"
    and nn: "\<not> list_ex isNaN numbers"
    and ng: "\<not> list_ex (\<lambda>num. js_lt num (Fin 0)) numbers"
    and nz: "\<not> list_ex (\<lambda>num. js_eq num (Fin 0)) numbers"
    by blast+
  from len num have "length numbers = n" by simp
  moreover have "list_all (\<lambda>num. js_gt num (Fin 0) \<and> \<not> isNaN num) numbers"
    using nn ng nz by (auto simp: list_all_iff list_ex_iff intro: positive_of_checks)
  ultimately show ?thesis by simp
qed

theorem C8_validated_history_witness:
  "validateAndParseInput parseFloat 3 (str ''1.03, 1.45,2.10 '') = Inr [Fin 1.03, Fin 1.45, Fin 2.10]
   \<and> length [Fin 1.03, Fin 1.45, Fin 2.10] = 3
   \<and> list_all (\<lambda>num. js_gt num (Fin 0) \<and> \<not> isNaN num) [Fin 1.03, Fin 1.45, Fin 2.10]"
proof -
  have ok: "validateAndParseInput parseFloat 3 (str ''1.03, 1.45,2.10 '')
      = Inr [Fin 1.03, Fin 1.45, Fin 2.10]"
    by (simp add: eval_defs)
  from C8_validated_history [OF ok] ok show ?thesis by blast
qed

end
